theory Spec2Isabelle
  imports Complex_Main "HOL-Library.Sublist"
begin

section \<open>RoboflowService: mold detection and severity classification\<close>

text \<open>
  A shallow embedding of the TypeScript class \<open>RoboflowService\<close>.

  Numbers. A JavaScript \<open>number\<close> that is finite by construction (a field of a
  prediction, a result of \<open>Math.random\<close>, a sum or product of such) is a \<open>real\<close>;
  rounding and overflow of the binary representation are not modelled. A number that
  comes out of a division or a square root can be infinite or \<open>NaN\<close> and is a
  \<open>jsnum\<close>. Every divisor of the program is an image dimension (a non-negative
  integer), so a zero divisor is \<open>+0\<close>.

  Effects. The fields of the service are a record that \<open>initialize\<close> returns updated.
  \<open>Math.random\<close> and \<open>Date.now\<close> read an explicit environment. An exception is
  the left side of a sum. An \<open>async\<close> function is modelled by what it does when it is
  awaited; the output on the console is left out.
\<close>

subsection \<open>JavaScript numbers\<close>

datatype jsnum = Num real | PosInf | NegInf | NaN

text \<open>\<open>a / b\<close> for finite \<open>a\<close> and finite \<open>b \<ge> +0\<close>.\<close>

definition js_div :: "real \<Rightarrow> real \<Rightarrow> jsnum" where
  "js_div a b =
     (if b \<noteq> 0 then Num (a / b)
      else if 0 < a then PosInf
      else if a < 0 then NegInf
      else NaN)"

text \<open>\<open>a > b\<close>: false as soon as one side is \<open>NaN\<close>.\<close>

fun js_gt :: "jsnum \<Rightarrow> jsnum \<Rightarrow> bool" where
  "js_gt (Num a) (Num b) = (b < a)"
| "js_gt PosInf (Num b) = True"
| "js_gt PosInf NegInf = True"
| "js_gt (Num a) NegInf = True"
| "js_gt _ _ = False"

text \<open>\<open>a <= b\<close>: false as soon as one side is \<open>NaN\<close>.\<close>

fun js_le :: "jsnum \<Rightarrow> jsnum \<Rightarrow> bool" where
  "js_le (Num a) (Num b) = (a \<le> b)"
| "js_le NegInf (Num b) = True"
| "js_le NegInf NegInf = True"
| "js_le NegInf PosInf = True"
| "js_le (Num a) PosInf = True"
| "js_le PosInf PosInf = True"
| "js_le _ _ = False"

text \<open>\<open>Math.max\<close> and \<open>Math.min\<close> of two arguments: \<open>NaN\<close> if one of them is.\<close>

fun Math_max :: "jsnum \<Rightarrow> jsnum \<Rightarrow> jsnum" where
  "Math_max NaN _ = NaN"
| "Math_max _ NaN = NaN"
| "Math_max PosInf _ = PosInf"
| "Math_max _ PosInf = PosInf"
| "Math_max NegInf b = b"
| "Math_max a NegInf = a"
| "Math_max (Num a) (Num b) = Num (max a b)"

fun Math_min :: "jsnum \<Rightarrow> jsnum \<Rightarrow> jsnum" where
  "Math_min NaN _ = NaN"
| "Math_min _ NaN = NaN"
| "Math_min NegInf _ = NegInf"
| "Math_min _ NegInf = NegInf"
| "Math_min PosInf b = b"
| "Math_min a PosInf = a"
| "Math_min (Num a) (Num b) = Num (min a b)"

text \<open>\<open>Math.sqrt\<close> of a finite number: \<open>NaN\<close> below zero.\<close>

definition Math_sqrt :: "real \<Rightarrow> jsnum" where
  "Math_sqrt a = (if a < 0 then NaN else Num (sqrt a))"

text \<open>\<open>a + b\<close> on numbers.\<close>

fun js_plus :: "jsnum \<Rightarrow> jsnum \<Rightarrow> jsnum" where
  "js_plus NaN _ = NaN"
| "js_plus _ NaN = NaN"
| "js_plus PosInf NegInf = NaN"
| "js_plus NegInf PosInf = NaN"
| "js_plus PosInf _ = PosInf"
| "js_plus _ PosInf = PosInf"
| "js_plus NegInf _ = NegInf"
| "js_plus _ NegInf = NegInf"
| "js_plus (Num a) (Num b) = Num (a + b)"

text \<open>\<open>Math.floor\<close> of a finite number, and \<open>Math.round\<close>, which rounds a half up.\<close>

definition Math_floor :: "real \<Rightarrow> int" where
  "Math_floor a = \<lfloor>a\<rfloor>"

definition Math_round :: "real \<Rightarrow> int" where
  "Math_round a = \<lfloor>a + 1 / 2\<rfloor>"

subsection \<open>The severity classifier\<close>

datatype severity = Low | Medium | High | Critical

text \<open>\<open>determineSeverity(confidence, area)\<close>.\<close>

definition determineSeverity :: "jsnum \<Rightarrow> jsnum \<Rightarrow> severity" where
  "determineSeverity confidence area =
     (if js_gt confidence (Num (8 / 10)) \<and> js_gt area (Num (1 / 10)) then Critical
      else if js_gt confidence (Num (7 / 10)) \<or> js_gt area (Num (5 / 100)) then High
      else if js_gt confidence (Num (6 / 10)) then Medium
      else Low)"

text \<open>
  The classifier as the specification words it: a list of rules, each a condition on
  (confidence, relativeArea) and a tier, tried in priority order; the first rule whose
  condition holds gives the tier, and \<open>low\<close> is the tier when none holds.
\<close>

fun first_match :: "((real \<Rightarrow> real \<Rightarrow> bool) \<times> severity) list \<Rightarrow> real \<Rightarrow> real \<Rightarrow> severity" where
  "first_match [] c a = Low"
| "first_match ((cond, tier) # rules) c a = (if cond c a then tier else first_match rules c a)"

definition severity_rules :: "((real \<Rightarrow> real \<Rightarrow> bool) \<times> severity) list" where
  "severity_rules =
     [(\<lambda>c a. c > 0.80 \<and> a > 0.10, Critical),
      (\<lambda>c a. c > 0.70 \<or> a > 0.05, High),
      (\<lambda>c a. c > 0.60, Medium)]"

definition severity_spec :: "real \<Rightarrow> real \<Rightarrow> severity" where
  "severity_spec c a = first_match severity_rules c a"

text \<open>The order \<open>low < medium < high < critical\<close>.\<close>

fun rank :: "severity \<Rightarrow> nat" where
  "rank Low = 0"
| "rank Medium = 1"
| "rank High = 2"
| "rank Critical = 3"

subsection \<open>Strings\<close>

text \<open>
  Strings are lists of characters. \<open>show_nat\<close> and \<open>show_int\<close> are the decimal
  digits of an integer, which is what a template literal \<open>${n}\<close> gives for an
  integer \<open>n\<close> (below \<open>10^21\<close> in magnitude; the exponent notation beyond is not
  modelled).
\<close>

definition digit :: "nat \<Rightarrow> char" where
  "digit d = ''0123456789'' ! d"

fun show_nat :: "nat \<Rightarrow> string" where
  "show_nat n = (if n < 10 then [digit n] else show_nat (n div 10) @ [digit (n mod 10)])"

declare show_nat.simps [simp del]

definition show_int :: "int \<Rightarrow> string" where
  "show_int i = (if i < 0 then CHR ''-'' # show_nat (nat (- i)) else show_nat (nat i))"

text \<open>
  \<open>toLowerCase\<close> on strings of ASCII characters: the letters A to Z are mapped, every
  other character is kept.
\<close>

definition toLowerCase_char :: "char \<Rightarrow> char" where
  "toLowerCase_char c =
     (case map_of (zip ''ABCDEFGHIJKLMNOPQRSTUVWXYZ'' ''abcdefghijklmnopqrstuvwxyz'') c of
        Some l \<Rightarrow> l
      | None \<Rightarrow> c)"

definition toLowerCase :: "string \<Rightarrow> string" where
  "toLowerCase s = map toLowerCase_char s"

subsection \<open>Property lookup on an object literal\<close>

text \<open>
  \<open>descriptions[key]\<close> reads a property of an object literal: an own property if there
  is one, else the property of that name inherited from \<open>Object.prototype\<close>, else
  \<open>undefined\<close> (\<open>None\<close>). The own properties of \<open>descriptions\<close> are strings; the
  inherited ones are built-in functions and objects (\<open>JBuiltin\<close>, by name).
\<close>

datatype jsval = JString string | JBuiltin string

definition Object_prototype :: "string list" where
  "Object_prototype =
     [''constructor'', ''__defineGetter__'', ''__defineSetter__'', ''hasOwnProperty'',
      ''__lookupGetter__'', ''__lookupSetter__'', ''isPrototypeOf'', ''propertyIsEnumerable'',
      ''toString'', ''valueOf'', ''__proto__'', ''toLocaleString'']"

definition get_property :: "(string \<times> string) list \<Rightarrow> string \<Rightarrow> jsval option" where
  "get_property own k =
     (case map_of own k of
        Some s \<Rightarrow> Some (JString s)
      | None \<Rightarrow> if k \<in> set Object_prototype then Some (JBuiltin k) else None)"

text \<open>\<open>v || d\<close>: \<open>d\<close> when \<open>v\<close> is falsy (\<open>undefined\<close>, the empty string, zero).\<close>

fun or_val :: "jsval option \<Rightarrow> jsval \<Rightarrow> jsval" where
  "or_val None d = d"
| "or_val (Some (JString s)) d = (if s = [] then d else JString s)"
| "or_val (Some (JBuiltin k)) d = JBuiltin k"

fun or_num :: "real option \<Rightarrow> real \<Rightarrow> real" where
  "or_num None d = d"
| "or_num (Some v) d = (if v = 0 then d else v)"

fun or_str :: "string option \<Rightarrow> string \<Rightarrow> string" where
  "or_str None d = d"
| "or_str (Some s) d = (if s = [] then d else s)"

subsection \<open>Data\<close>

text \<open>
  \<open>imageElement.width\<close> and \<open>imageElement.height\<close> are non-negative integers. A
  prediction is an object of the external model; each of its fields may be missing
  (\<open>None\<close>), and a field that is there has the type the model documents.
\<close>

record image =
  img_width :: nat
  img_height :: nat

record prediction =
  p_class :: "string option"
  p_confidence :: "real option"
  p_x :: "real option"
  p_y :: "real option"
  p_width :: "real option"
  p_height :: "real option"

record location =
  loc_x :: jsnum
  loc_y :: jsnum
  loc_width :: jsnum
  loc_height :: jsnum

text \<open>
  \<open>rawPrediction\<close> is the model's prediction, or the object
  \<open>{ demo: true, confidence, area }\<close> of the demo mode.
\<close>

datatype raw_prediction =
  FromModel prediction
| DemoObject (demo: bool) (demo_confidence: real) (demo_area: real)

record detection =
  det_id :: string
  det_type :: string
  severity :: severity
  confidence :: real
  location :: location
  description :: jsval
  recommendations :: "string list"
  det_class :: string
  rawPrediction :: raw_prediction

text \<open>A thrown value: an \<open>Error\<close> with its message, or anything else.\<close>

datatype thrown = Error (message: string) | NonError

text \<open>\<open>error instanceof Error ? error.message : 'Unknown error'\<close>\<close>

fun message_of :: "thrown \<Rightarrow> string" where
  "message_of (Error m) = m"
| "message_of NonError = ''Unknown error''"

text \<open>
  What \<open>await this.model.detect(imageElement)\<close> gives: a thrown value, or a value that
  is an array of predictions or is not an array at all. The model is its \<open>detect\<close>.
\<close>

datatype response = NotArray | JArray "prediction list"

type_synonym model = "image \<Rightarrow> thrown + response"

text \<open>
  The package \<open>roboflow-js\<close>: the import may fail, \<open>new Roboflow\<close> may throw, and
  \<open>rf.model(name)\<close> may throw. The client \<open>rf\<close> is known by its publishable key.
\<close>

type_synonym roboflow = string

record roboflow_js =
  import_error :: "thrown option"
  new_Roboflow :: "string \<Rightarrow> thrown + roboflow"
  rf_model :: "roboflow \<Rightarrow> string \<Rightarrow> thrown + model"

record service =
  rf :: "roboflow option"
  model :: "model option"
  isInitialized :: bool
  apiKey :: "string option"

text \<open>
  The environment: the results of the successive calls of \<open>Math.random\<close> and of
  \<open>Date.now\<close>, and how many of each were made.
\<close>

record world =
  randoms :: "nat \<Rightarrow> real"
  rpos :: nat
  clock :: "nat \<Rightarrow> int"
  cpos :: nat

definition Math_random :: "world \<Rightarrow> real \<times> world" where
  "Math_random w = (randoms w (rpos w), w\<lparr>rpos := Suc (rpos w)\<rparr>)"

definition Date_now :: "world \<Rightarrow> int \<times> world" where
  "Date_now w = (clock w (cpos w), w\<lparr>cpos := Suc (cpos w)\<rparr>)"

subsection \<open>The service\<close>

definition constructor :: "string option \<Rightarrow> service" where
  "constructor key =
     \<lparr>rf = None, model = None, isInitialized = False,
      apiKey = (case key of None \<Rightarrow> None | Some k \<Rightarrow> if k = [] then None else Some k)\<rparr>"

definition load :: "roboflow_js \<Rightarrow> string \<Rightarrow> thrown + (roboflow \<times> model)" where
  "load lib key =
     (case import_error lib of
        Some e \<Rightarrow> Inl e
      | None \<Rightarrow>
          (case new_Roboflow lib key of
             Inl e \<Rightarrow> Inl e
           | Inr r \<Rightarrow>
               (case rf_model lib r ''research-placement/mouldy-wall-classification/2'' of
                  Inl e \<Rightarrow> Inl e
                | Inr m \<Rightarrow> Inr (r, m))))"

definition initialize :: "roboflow_js \<Rightarrow> string \<Rightarrow> service \<Rightarrow> (thrown + bool) \<times> service" where
  "initialize lib key s0 =
     (let s = s0\<lparr>apiKey := Some key\<rparr> in
      if key = ''demo'' then (Inr True, s\<lparr>isInitialized := True\<rparr>)
      else
        (case load lib key of
           Inr (r, m) \<Rightarrow> (Inr True, s\<lparr>rf := Some r, model := Some m, isInitialized := True\<rparr>)
         | Inl e \<Rightarrow>
             (Inl (Error (''Roboflow initialization failed: '' @ message_of e)),
              s\<lparr>isInitialized := False, rf := None, model := None\<rparr>)))"

definition isAvailable :: "service \<Rightarrow> bool" where
  "isAvailable s = (isInitialized s \<and> (apiKey s = Some ''demo'' \<or> model s \<noteq> None))"

definition generateDescription :: "string \<Rightarrow> real \<Rightarrow> jsval" where
  "generateDescription className c =
     (let confidencePct = Math_round (c * 100);
          descriptions =
            [(''mold'', ''Mold growth detected with '' @ show_int confidencePct @ ''% confidence''),
             (''mouldy'', ''Moldy surface identified with '' @ show_int confidencePct @ ''% confidence''),
             (''fungal'', ''Fungal growth observed with '' @ show_int confidencePct @ ''% confidence'')]
      in or_val (get_property descriptions (toLowerCase className))
           (JString (''Mold-like substance detected with '' @ show_int confidencePct @ ''% confidence'')))"

text \<open>
  \<open>getMoldRecommendations(severity)\<close>: both calls pass a result of
  \<open>determineSeverity\<close>, so the lookup of the tier always finds its list.
\<close>

fun getMoldRecommendations :: "severity \<Rightarrow> string list" where
  "getMoldRecommendations sev =
     [''Identify and eliminate moisture source'',
      ''Improve ventilation in affected area'',
      ''Monitor for spread to adjacent areas'']
     @ (case sev of
          Critical \<Rightarrow>
            [''IMMEDIATE professional mold remediation required'',
             ''Evacuate area until professional assessment'',
             ''Contact certified mold remediation specialist'',
             ''Consider temporary relocation if extensive'']
        | High \<Rightarrow>
            [''Professional mold remediation recommended'',
             ''Wear protective equipment when in area'',
             ''Schedule professional air quality testing'',
             ''Document extent for insurance purposes'']
        | Medium \<Rightarrow>
            [''Professional assessment recommended'',
             ''Clean with appropriate mold removal products'',
             ''Increase air circulation and dehumidification'',
             ''Monitor closely for expansion'']
        | Low \<Rightarrow>
            [''Clean affected area with mold removal solution'',
             ''Ensure proper ventilation'',
             ''Regular monitoring recommended'',
             ''Address any moisture issues promptly''])"

text \<open>
  The body of the loop of \<open>generateMockDetections\<close> for the index \<open>i\<close>. The calls of
  \<open>Math.random\<close> and \<open>Date.now\<close> are made in the order of the source: confidence,
  area, the id, then x, y, width and height of the location.
\<close>

definition mock_detection :: "nat \<Rightarrow> world \<Rightarrow> detection \<times> world" where
  "mock_detection i w0 =
     (let (rc, w1) = Math_random w0;
          c = 0.6 + rc * 0.3;
          (ra, w2) = Math_random w1;
          area = 0.01 + ra * 0.05;
          (now, w3) = Date_now w2;
          (rx, w4) = Math_random w3;
          (ry, w5) = Math_random w4;
          (rw, w6) = Math_random w5;
          (rh, w7) = Math_random w6
      in (\<lparr>det_id = ''demo_mold_'' @ show_int now @ ''_'' @ show_nat i,
           det_type = ''mold'',
           severity = determineSeverity (Num c) (Num area),
           confidence = c,
           location =
             \<lparr>loc_x = Num (rx * 0.7 + 0.1),
              loc_y = Num (ry * 0.7 + 0.1),
              loc_width = js_plus (Math_sqrt area) (Num (rw * 0.1)),
              loc_height = js_plus (Math_sqrt area) (Num (rh * 0.1))\<rparr>,
           description =
             JString (''Demo: Mold growth detected with '' @ show_int (Math_round (c * 100))
                      @ ''% confidence''),
           recommendations = getMoldRecommendations (determineSeverity (Num c) (Num area)),
           det_class = ''mold'',
           rawPrediction = DemoObject True c area\<rparr>, w7))"

function mock_loop :: "nat \<Rightarrow> int \<Rightarrow> detection list \<Rightarrow> world \<Rightarrow> detection list \<times> world" where
  "mock_loop i numDetections detections w =
     (if int i < numDetections
      then (case mock_detection i w of
              (d, w') \<Rightarrow> mock_loop (Suc i) numDetections (detections @ [d]) w')
      else (detections, w))"
  by pat_completeness auto
termination
  by (relation "measure (\<lambda>(i, n, ds, w). nat (n - int i))") auto

declare mock_loop.simps [simp del]

definition generateMockDetections :: "image \<Rightarrow> world \<Rightarrow> detection list \<times> world" where
  "generateMockDetections imageElement w0 =
     (let (r, w1) = Math_random w0;
          numDetections = Math_floor (r * 3)
      in mock_loop 0 numDetections [] w1)"

text \<open>
  The function that \<open>detectMold\<close> maps over the predictions, and the map itself, which
  calls it from left to right with the index of each prediction.
\<close>

definition prediction_to_detection :: "image \<Rightarrow> prediction \<Rightarrow> nat \<Rightarrow> world \<Rightarrow> detection \<times> world" where
  "prediction_to_detection imageElement p index w0 =
     (let c = or_num (p_confidence p) 0;
          width = or_num (p_width p) 50;
          height = or_num (p_height p) 50;
          x = or_num (p_x p) 0;
          y = or_num (p_y p) 0;
          area = js_div (width * height) (real (img_width imageElement * img_height imageElement));
          (now, w1) = Date_now w0
      in (\<lparr>det_id = ''mold_'' @ show_int now @ ''_'' @ show_nat index,
           det_type = ''mold'',
           severity = determineSeverity (Num c) area,
           confidence = c,
           location =
             \<lparr>loc_x = Math_max (Num 0) (Math_min (Num 1)
                        (js_div (x - width / 2) (real (img_width imageElement)))),
              loc_y = Math_max (Num 0) (Math_min (Num 1)
                        (js_div (y - height / 2) (real (img_height imageElement)))),
              loc_width = Math_min (Num 1) (js_div width (real (img_width imageElement))),
              loc_height = Math_min (Num 1) (js_div height (real (img_height imageElement)))\<rparr>,
           description = generateDescription (or_str (p_class p) ''mold'') c,
           recommendations = getMoldRecommendations (determineSeverity (Num c) area),
           det_class = or_str (p_class p) ''mold'',
           rawPrediction = FromModel p\<rparr>, w1))"

fun map_predictions :: "image \<Rightarrow> nat \<Rightarrow> prediction list \<Rightarrow> world \<Rightarrow> detection list \<times> world" where
  "map_predictions imageElement index [] w = ([], w)"
| "map_predictions imageElement index (p # ps) w =
     (case prediction_to_detection imageElement p index w of
        (d, w') \<Rightarrow>
          (case map_predictions imageElement (Suc index) ps w' of
             (ds, w'') \<Rightarrow> (d # ds, w'')))"

definition detectMold :: "service \<Rightarrow> image \<Rightarrow> world \<Rightarrow> (thrown + detection list) \<times> world" where
  "detectMold s imageElement w =
     (if apiKey s = Some ''demo''
      then (case generateMockDetections imageElement w of (ds, w') \<Rightarrow> (Inr ds, w'))
      else
        (case model s of
           None \<Rightarrow> (Inl (Error ''Roboflow model not initialized''), w)
         | Some m \<Rightarrow>
             if \<not> isAvailable s then (Inl (Error ''Roboflow model not initialized''), w)
             else
               (case m imageElement of
                  Inl e \<Rightarrow> (Inl (Error (''Mold detection failed: '' @ message_of e)), w)
                | Inr NotArray \<Rightarrow> (Inr [], w)
                | Inr (JArray predictions) \<Rightarrow>
                    if predictions = [] then (Inr [], w)
                    else (case map_predictions imageElement 0 predictions w of
                            (ds, w') \<Rightarrow> (Inr ds, w')))))"

subsection \<open>Notions of the specification\<close>

text \<open>
  The clamped-box invariant of the specification: \<open>0 \<le> x\<close>, \<open>0 \<le> y\<close>,
  \<open>x + width \<le> 1\<close> and \<open>y + height \<le> 1\<close>.
\<close>

definition clamped_box :: "location \<Rightarrow> bool" where
  "clamped_box l =
     (js_le (Num 0) (loc_x l) \<and> js_le (Num 0) (loc_y l)
      \<and> js_le (js_plus (loc_x l) (loc_width l)) (Num 1)
      \<and> js_le (js_plus (loc_y l) (loc_height l)) (Num 1))"

text \<open>
  What the service does clamp: \<open>x\<close> and \<open>y\<close> lie in \<open>[0, 1]\<close>, and \<open>width\<close> and
  \<open>height\<close> are at most 1.
\<close>

definition unit_box :: "location \<Rightarrow> bool" where
  "unit_box l =
     (js_le (Num 0) (loc_x l) \<and> js_le (loc_x l) (Num 1)
      \<and> js_le (Num 0) (loc_y l) \<and> js_le (loc_y l) (Num 1)
      \<and> js_le (loc_width l) (Num 1) \<and> js_le (loc_height l) (Num 1))"

text \<open>The default of \<open>CONFIDENCE_THRESHOLD\<close> in the configuration of the backend.\<close>

definition CONFIDENCE_THRESHOLD :: real where
  "CONFIDENCE_THRESHOLD = 0.5"

text \<open>
  A field that is missing or falsy replaced by a default \<open>d\<close>: \<open>falsy\<close> is the
  falsy value of the field's type, 0 for a number and the empty string for a string.
\<close>

definition replaced :: "'a \<Rightarrow> 'a \<Rightarrow> 'a option \<Rightarrow> 'a" where
  "replaced falsy d v = (case v of None \<Rightarrow> d | Some r \<Rightarrow> if r = falsy then d else r)"

text \<open>The three markers of the demo mode on a detection.\<close>

definition has_demo_id :: "detection \<Rightarrow> bool" where
  "has_demo_id d = prefix ''demo_mold_'' (det_id d)"

fun has_demo_description :: "detection \<Rightarrow> bool" where
  "has_demo_description d =
     (case description d of JString t \<Rightarrow> prefix ''Demo:'' t | JBuiltin k \<Rightarrow> False)"

fun has_demo_flag :: "detection \<Rightarrow> bool" where
  "has_demo_flag d =
     (case rawPrediction d of DemoObject b c a \<Rightarrow> b | FromModel p \<Rightarrow> False)"


text \<open>
  A prediction whose box lies inside the frame: with the centre \<open>(x, y)\<close> and the size
  that \<open>detectMold\<close> takes for it, the box starts at or after 0 and ends at or before
  the width and the height of the image.
\<close>

definition in_frame :: "image \<Rightarrow> prediction \<Rightarrow> bool" where
  "in_frame imageElement p =
     (let x = replaced 0 0 (p_x p);
          y = replaced 0 0 (p_y p);
          width = replaced 0 50 (p_width p);
          height = replaced 0 50 (p_height p)
      in 0 \<le> x - width / 2 \<and> x + width / 2 \<le> real (img_width imageElement)
         \<and> 0 \<le> y - height / 2 \<and> y + height / 2 \<le> real (img_height imageElement))"



subsection \<open>Concrete inputs\<close>

definition image_100 :: image where
  "image_100 = \<lparr>img_width = 100, img_height = 100\<rparr>"

text \<open>
  A world whose clock stands at 0 and whose first random draws are listed; the draws
  after them are 0.
\<close>

definition world_of :: "real list \<Rightarrow> world" where
  "world_of rs =
     \<lparr>randoms = (\<lambda>k. if k < length rs then rs ! k else 0), rpos = 0,
      clock = (\<lambda>k. 0), cpos = 0\<rparr>"


text \<open>A service initialized with a key and a model that answers \<open>r\<close> to every image.\<close>

definition service_with :: "thrown + response \<Rightarrow> service" where
  "service_with r =
     \<lparr>rf = Some ''key'', model = Some (\<lambda>imageElement. r), isInitialized = True,
      apiKey = Some ''key''\<rparr>"

definition prediction_of :: "real \<Rightarrow> real \<Rightarrow> real \<Rightarrow> real \<Rightarrow> real \<Rightarrow> prediction" where
  "prediction_of c px py pw ph =
     \<lparr>p_class = Some ''mold'', p_confidence = Some c, p_x = Some px, p_y = Some py,
      p_width = Some pw, p_height = Some ph\<rparr>"

subsection \<open>The two paths of detectMold\<close>

lemma detectMold_demo:
  "apiKey s = Some ''demo'' \<Longrightarrow>
   detectMold s img w =
     (Inr (fst (generateMockDetections img w)), snd (generateMockDetections img w))"
  by (simp add: detectMold_def split: prod.splits)

lemma detectMold_model:
  assumes "apiKey s \<noteq> Some ''demo''" and "isAvailable s" and "model s = Some m"
    and "m img = Inr (JArray ps)"
  shows "detectMold s img w =
     (Inr (fst (map_predictions img 0 ps w)), snd (map_predictions img 0 ps w))"
  using assms by (cases ps) (simp_all add: detectMold_def split: prod.splits)

lemma detectMold_Inr_cases:
  assumes "fst (detectMold s img w) = Inr ds"
  shows "(apiKey s = Some ''demo'' \<and> ds = fst (generateMockDetections img w))
     \<or> (apiKey s \<noteq> Some ''demo'' \<and> (\<exists>ps. ds = fst (map_predictions img 0 ps w)))"
proof (cases "apiKey s = Some ''demo''")
  case True
  then show ?thesis using assms by (simp add: detectMold_demo)
next
  case False
  have "\<exists>ps. ds = fst (map_predictions img 0 ps w)"
  proof (cases "ds = []")
    case True
    then have "ds = fst (map_predictions img 0 [] w)" by simp
    then show ?thesis ..
  next
    case nonempty: False
    have "\<exists>ps. ds = fst (map_predictions img 0 ps w)"
      if "map_predictions img 0 qs w = (ds, w')" for qs w'
      using that by (metis fst_conv)
    then show ?thesis
      using assms False nonempty
      by (auto simp: detectMold_def split: option.splits if_splits sum.splits response.splits prod.splits)
  qed
  with False show ?thesis by simp
qed

subsection \<open>The map over the predictions\<close>

lemma prediction_to_detection_world:
  "snd (prediction_to_detection img p i w) = w\<lparr>cpos := Suc (cpos w)\<rparr>"
  by (simp add: prediction_to_detection_def Date_now_def Let_def)

lemma map_predictions_length: "length (fst (map_predictions img i ps w)) = length ps"
proof (induction ps arbitrary: i w)
  case Nil
  then show ?case by simp
next
  case (Cons p ps)
  obtain d w' where a: "prediction_to_detection img p i w = (d, w')"
    by (cases "prediction_to_detection img p i w")
  obtain ds w'' where b: "map_predictions img (Suc i) ps w' = (ds, w'')"
    by (cases "map_predictions img (Suc i) ps w'")
  have "length ds = length ps"
    using Cons.IH [of "Suc i" w'] b by simp
  then show ?case using a b by simp
qed

lemma map_predictions_nth:
  "k < length ps \<Longrightarrow>
   fst (map_predictions img i ps w) ! k =
     fst (prediction_to_detection img (ps ! k) (i + k) (w\<lparr>cpos := cpos w + k\<rparr>))"
proof (induction ps arbitrary: i w k)
  case Nil
  then show ?case by simp
next
  case (Cons p ps)
  obtain d w' where a: "prediction_to_detection img p i w = (d, w')"
    by (cases "prediction_to_detection img p i w")
  then have w': "w' = w\<lparr>cpos := Suc (cpos w)\<rparr>"
    using prediction_to_detection_world [of img p i w] by simp
  obtain ds w'' where b: "map_predictions img (Suc i) ps w' = (ds, w'')"
    by (cases "map_predictions img (Suc i) ps w'")
  show ?case
  proof (cases k)
    case 0
    then show ?thesis using a b by simp
  next
    case (Suc j)
    then have "j < length ps" using Cons.prems by simp
    from Cons.IH [OF this, of "Suc i" w'] b
    have "ds ! j = fst (prediction_to_detection img (ps ! j) (Suc i + j) (w'\<lparr>cpos := cpos w' + j\<rparr>))"
      by simp
    then show ?thesis using a b Suc w' by simp
  qed
qed

lemma map_predictions_all:
  assumes "\<And>p j w'. P (fst (prediction_to_detection img p j w'))"
  shows "\<forall>d\<in>set (fst (map_predictions img i ps w)). P d"
proof -
  have "P (fst (map_predictions img i ps w) ! k)" if "k < length ps" for k
    using that assms by (simp add: map_predictions_nth)
  then show ?thesis
    by (metis in_set_conv_nth map_predictions_length)
qed

subsection \<open>The loop of the demo mode\<close>

lemma mock_detection_randoms: "randoms (snd (mock_detection i w)) = randoms w"
  by (simp add: mock_detection_def Math_random_def Date_now_def Let_def)

lemma mock_loop_all:
  assumes "\<And>j w'. randoms w' = rs \<Longrightarrow> P (fst (mock_detection j w'))"
  shows "randoms w = rs \<Longrightarrow> \<forall>d\<in>set acc. P d \<Longrightarrow> \<forall>d\<in>set (fst (mock_loop i n acc w)). P d"
proof (induction i n acc w rule: mock_loop.induct)
  case (1 i n acc w)
  show ?case
  proof (cases "int i < n")
    case True
    obtain d w' where dw: "mock_detection i w = (d, w')"
      by (cases "mock_detection i w")
    have r: "randoms w' = rs"
      using mock_detection_randoms [of i w] dw "1.prems" by simp
    have "P d"
      using assms [of w i] dw "1.prems" by simp
    then have "\<forall>d\<in>set (acc @ [d]). P d"
      using "1.prems" by simp
    from "1.IH" [OF True dw [symmetric] r this]
    show ?thesis using True dw by (simp add: mock_loop.simps [of i])
  next
    case False
    then show ?thesis using "1.prems" by (simp add: mock_loop.simps [of i])
  qed
qed

lemma mock_loop_length:
  "length (fst (mock_loop i n acc w)) = length acc + nat (n - int i)"
proof (induction i n acc w rule: mock_loop.induct)
  case (1 i n acc w)
  show ?case
  proof (cases "int i < n")
    case True
    obtain d w' where dw: "mock_detection i w = (d, w')"
      by (cases "mock_detection i w")
    from "1.IH" [OF True dw [symmetric]]
    show ?thesis using True dw by (simp add: mock_loop.simps [of i])
  next
    case False
    then show ?thesis by (simp add: mock_loop.simps [of i])
  qed
qed

lemma generateMockDetections_all:
  assumes "\<And>j w'. randoms w' = randoms w \<Longrightarrow> P (fst (mock_detection j w'))"
  shows "\<forall>d\<in>set (fst (generateMockDetections img w)). P d"
  unfolding generateMockDetections_def Math_random_def Let_def prod.case
  by (rule mock_loop_all [where rs = "randoms w"]) (simp_all add: assms)

lemma generateMockDetections_length:
  "length (fst (generateMockDetections img w)) = nat \<lfloor>randoms w (rpos w) * 3\<rfloor>"
  by (simp add: generateMockDetections_def Math_random_def Math_floor_def mock_loop_length)

subsection \<open>Fields of a detection\<close>

lemma or_num_replaced: "or_num v d = replaced 0 d v"
  by (cases v) (simp_all add: replaced_def)

lemma or_str_replaced: "or_str v d = replaced [] d v"
  by (cases v) (simp_all add: replaced_def)

lemma prediction_to_detection_confidence:
  "confidence (fst (prediction_to_detection img p i w)) = replaced 0 0 (p_confidence p)"
  by (simp add: prediction_to_detection_def Date_now_def Let_def or_num_replaced)

lemma prediction_to_detection_class:
  "det_class (fst (prediction_to_detection img p i w)) = replaced [] ''mold'' (p_class p)"
  by (simp add: prediction_to_detection_def Date_now_def Let_def or_str_replaced)

lemma prediction_to_detection_raw:
  "rawPrediction (fst (prediction_to_detection img p i w)) = FromModel p"
  by (simp add: prediction_to_detection_def Date_now_def Let_def)

lemma prediction_to_detection_location:
  "location (fst (prediction_to_detection img p i w)) =
     \<lparr>loc_x = Math_max (Num 0) (Math_min (Num 1)
        (js_div (replaced 0 0 (p_x p) - replaced 0 50 (p_width p) / 2) (real (img_width img)))),
      loc_y = Math_max (Num 0) (Math_min (Num 1)
        (js_div (replaced 0 0 (p_y p) - replaced 0 50 (p_height p) / 2) (real (img_height img)))),
      loc_width = Math_min (Num 1) (js_div (replaced 0 50 (p_width p)) (real (img_width img))),
      loc_height = Math_min (Num 1) (js_div (replaced 0 50 (p_height p)) (real (img_height img)))\<rparr>"
  by (simp add: prediction_to_detection_def Date_now_def Let_def or_num_replaced)

lemma prediction_to_detection_unit_box:
  assumes "0 < img_width img" and "0 < img_height img"
  shows "unit_box (location (fst (prediction_to_detection img p i w)))"
  using assms by (simp add: prediction_to_detection_location unit_box_def js_div_def)

lemma sqrt_le_9_10:
  assumes "0 \<le> a" and "a \<le> 6 / 100"
  shows "sqrt a \<le> 9 / 10"
proof (rule real_le_lsqrt)
  show "a \<le> (9 / 10)\<^sup>2" using assms by (simp add: power2_eq_square)
qed simp

lemma mock_detection_unit_box:
  assumes "\<forall>k. 0 \<le> randoms w k \<and> randoms w k < 1"
  shows "unit_box (location (fst (mock_detection i w)))"
proof -
  define a where "a = 0.01 + randoms w (Suc (rpos w)) * 0.05"
  have a: "0 \<le> a" "a \<le> 6 / 100"
    using assms [rule_format, of "Suc (rpos w)"] by (simp_all add: a_def)
  have s: "0 \<le> sqrt a" "sqrt a \<le> 9 / 10"
    using a sqrt_le_9_10 by simp_all
  have "loc_width (location (fst (mock_detection i w)))
      = Num (sqrt a + randoms w (Suc (Suc (Suc (Suc (rpos w))))) * 0.1)"
    using a by (simp add: mock_detection_def Math_random_def Date_now_def Let_def Math_sqrt_def a_def)
  moreover have "loc_height (location (fst (mock_detection i w)))
      = Num (sqrt a + randoms w (Suc (Suc (Suc (Suc (Suc (rpos w)))))) * 0.1)"
    using a by (simp add: mock_detection_def Math_random_def Date_now_def Let_def Math_sqrt_def a_def)
  moreover have "loc_x (location (fst (mock_detection i w)))
      = Num (randoms w (Suc (Suc (rpos w))) * 0.7 + 0.1)"
    by (simp add: mock_detection_def Math_random_def Date_now_def Let_def)
  moreover have "loc_y (location (fst (mock_detection i w)))
      = Num (randoms w (Suc (Suc (Suc (rpos w)))) * 0.7 + 0.1)"
    by (simp add: mock_detection_def Math_random_def Date_now_def Let_def)
  ultimately show ?thesis
    using s assms [rule_format, of "Suc (Suc (rpos w))"]
      assms [rule_format, of "Suc (Suc (Suc (rpos w)))"]
      assms [rule_format, of "Suc (Suc (Suc (Suc (rpos w))))"]
      assms [rule_format, of "Suc (Suc (Suc (Suc (Suc (rpos w)))))"]
    by (simp add: unit_box_def)
qed


lemma mock_detection_marker:
  "has_demo_id (fst (mock_detection i w)) \<and> has_demo_description (fst (mock_detection i w))
   \<and> has_demo_flag (fst (mock_detection i w))"
  by (simp add: mock_detection_def Math_random_def Date_now_def Let_def has_demo_id_def)

lemma generateDescription_not_demo:
  "generateDescription className c = JString t \<Longrightarrow> \<not> prefix ''Demo:'' t"
  by (auto simp: generateDescription_def get_property_def Let_def split: if_splits)

lemma prediction_to_detection_no_marker:
  "\<not> has_demo_id (fst (prediction_to_detection img p i w))
   \<and> \<not> has_demo_description (fst (prediction_to_detection img p i w))"
  using generateDescription_not_demo
  by (auto simp: prediction_to_detection_def Date_now_def Let_def has_demo_id_def
      split: jsval.splits)

lemma map_predictions_map:
  assumes "\<And>p j w'. f (fst (prediction_to_detection img p j w')) = g p"
  shows "map f (fst (map_predictions img i ps w)) = map g ps"
  by (rule nth_equalityI) (simp_all add: map_predictions_length map_predictions_nth assms)

lemma generateDescription_generic:
  assumes "toLowerCase className \<notin> {''mold'', ''mouldy'', ''fungal''}"
    and "toLowerCase className \<notin> set Object_prototype"
  shows "generateDescription className c =
     JString (''Mold-like substance detected with '' @ show_int (Math_round (c * 100))
              @ ''% confidence'')"
  using assms by (simp add: generateDescription_def get_property_def Let_def)

lemma world_of_unit:
  assumes "\<forall>r\<in>set rs. 0 \<le> r \<and> r < 1"
  shows "\<forall>k. 0 \<le> randoms (world_of rs) k \<and> randoms (world_of rs) k < 1"
  using assms by (simp add: world_of_def)

lemma sqrt_1_25: "sqrt (1 / 25) = 1 / 5"
  by (rule real_sqrt_unique) (simp_all add: power2_eq_square)

lemma map_predictions_nonempty: "ps \<noteq> [] \<Longrightarrow> fst (map_predictions img i ps w) \<noteq> []"
  using map_predictions_length [of img i ps w] by auto

lemma clamp_sum:
  fixes a b :: real
  assumes "0 \<le> a" and "a + b \<le> 1"
  shows "max 0 (min 1 a) + min 1 b \<le> 1"
  using assms by (auto simp: max_def min_def)

lemma in_frame_fraction:
  fixes x wd W :: real
  assumes "0 < W" and "0 \<le> x - wd / 2" and "x + wd / 2 \<le> W"
  shows "0 \<le> (x - wd / 2) / W \<and> (x - wd / 2) / W + wd / W \<le> 1"
proof
  show "0 \<le> (x - wd / 2) / W"
    using assms by simp
  have "(x - wd / 2) / W + wd / W = (x + wd / 2) / W"
    using assms(1) by (simp add: field_simps)
  also have "\<dots> \<le> 1"
    using assms by simp
  finally show "(x - wd / 2) / W + wd / W \<le> 1" .
qed

lemma prediction_to_detection_clamped_box:
  assumes "0 < img_width img" and "0 < img_height img" and "in_frame img p"
  shows "clamped_box (location (fst (prediction_to_detection img p i w)))"
proof -
  define a where "a = (replaced 0 0 (p_x p) - replaced 0 50 (p_width p) / 2) / real (img_width img)"
  define b where "b = replaced 0 50 (p_width p) / real (img_width img)"
  define a' where "a' = (replaced 0 0 (p_y p) - replaced 0 50 (p_height p) / 2) / real (img_height img)"
  define b' where "b' = replaced 0 50 (p_height p) / real (img_height img)"
  have loc: "location (fst (prediction_to_detection img p i w)) =
      \<lparr>loc_x = Num (max 0 (min 1 a)), loc_y = Num (max 0 (min 1 a')),
       loc_width = Num (min 1 b), loc_height = Num (min 1 b')\<rparr>"
    using assms(1,2)
    by (simp add: prediction_to_detection_location js_div_def a_def b_def a'_def b'_def)
  have h: "0 \<le> a \<and> a + b \<le> 1"
    unfolding a_def b_def
    by (rule in_frame_fraction) (use assms in \<open>simp_all add: in_frame_def Let_def\<close>)
  have v: "0 \<le> a' \<and> a' + b' \<le> 1"
    unfolding a'_def b'_def
    by (rule in_frame_fraction) (use assms in \<open>simp_all add: in_frame_def Let_def\<close>)
  show ?thesis
    unfolding loc clamped_box_def
    using clamp_sum [of a b] clamp_sum [of a' b'] h v by simp
qed







subsection \<open>Properties of the classifier\<close>

lemma js_gt_mono: "js_le v v' \<Longrightarrow> js_gt v (Num t) \<Longrightarrow> js_gt v' (Num t)"
  by (cases v; cases v') auto

text \<open>
  Claim C1. On finite arguments \<open>determineSeverity\<close> is the function given by the four
  rules of the specification, tried in priority order with the first match winning; the
  comparisons are strict, so confidence 0.80 with relative area 0.10 is not critical.
\<close>

theorem determineSeverity_is_spec:
  "determineSeverity (Num c) (Num a) = severity_spec c a
   \<and> determineSeverity (Num 0.80) (Num 0.10) \<noteq> Critical"
  by (simp add: determineSeverity_def severity_spec_def severity_rules_def)

text \<open>
  Claim C4. Severity is monotone: when confidence and area both do not decrease, the
  tier does not decrease in the order \<open>low < medium < high < critical\<close>.
\<close>

theorem determineSeverity_mono:
  assumes "js_le c c'" and "js_le a a'"
  shows "rank (determineSeverity c a) \<le> rank (determineSeverity c' a')"
  using js_gt_mono [OF assms(1)] js_gt_mono [OF assms(2)]
  by (auto simp: determineSeverity_def)

theorem determineSeverity_mono_witness:
  "js_le (Num 0.65) (Num 0.85) \<and> js_le (Num 0.02) (Num 0.2)
   \<and> rank (determineSeverity (Num 0.65) (Num 0.02)) = 1
   \<and> rank (determineSeverity (Num 0.85) (Num 0.2)) = 3
   \<and> rank (determineSeverity (Num 0.65) (Num 0.02)) \<le> rank (determineSeverity (Num 0.85) (Num 0.2))"
  using determineSeverity_mono [of "Num 0.65" "Num 0.85" "Num 0.02" "Num 0.2"]
  by (simp add: determineSeverity_def)

subsection \<open>Properties of the detections\<close>

text \<open>
  Claim C2, as stated: every detection, from a prediction of the model or from the demo
  mode, has \<open>0 \<le> x\<close>, \<open>0 \<le> y\<close>, \<open>x + width \<le> 1\<close> and \<open>y + height \<le> 1\<close>. It fails
  on both paths: a prediction centred at \<open>(100, 50)\<close> of size \<open>50 \<times> 50\<close> on an image
  of \<open>100 \<times> 100\<close> gives \<open>x = 0.75\<close> and \<open>width = 0.5\<close>; random draws of 0.9 for the
  position and the size and 0.6 for the area give \<open>x = 0.73\<close> and \<open>width = 0.29\<close>.
\<close>

theorem clamped_box_counterexample:
  "map location (projr (fst (detectMold
       (service_with (Inr (JArray [prediction_of 0.9 100 50 50 50]))) image_100 (world_of []))))
     = [\<lparr>loc_x = Num (3 / 4), loc_y = Num (1 / 4), loc_width = Num (1 / 2), loc_height = Num (1 / 2)\<rparr>]
   \<and> \<not> clamped_box
        \<lparr>loc_x = Num (3 / 4), loc_y = Num (1 / 4), loc_width = Num (1 / 2), loc_height = Num (1 / 2)\<rparr>
   \<and> map location (projr (fst (detectMold (constructor (Some ''demo'')) image_100
        (world_of [1 / 2, 9 / 10, 3 / 5, 9 / 10, 9 / 10, 9 / 10, 9 / 10]))))
     = [\<lparr>loc_x = Num (73 / 100), loc_y = Num (73 / 100),
         loc_width = Num (29 / 100), loc_height = Num (29 / 100)\<rparr>]
   \<and> \<not> clamped_box
        \<lparr>loc_x = Num (73 / 100), loc_y = Num (73 / 100),
         loc_width = Num (29 / 100), loc_height = Num (29 / 100)\<rparr>"
proof -
  have sqrt_1_25: "sqrt (1 / 25) = 1 / 5"
    by (rule real_sqrt_unique) (simp_all add: power2_eq_square)
  show ?thesis
    by (simp add: detectMold_def service_with_def isAvailable_def prediction_of_def image_100_def
        world_of_def prediction_to_detection_def Date_now_def Let_def js_div_def clamped_box_def
        constructor_def generateMockDetections_def Math_random_def Math_floor_def
        mock_loop.simps mock_detection_def Math_sqrt_def sqrt_1_25)
qed

text \<open>
  Claim C2, amended: every detection that \<open>detectMold\<close> returns has \<open>x\<close> and \<open>y\<close> in
  \<open>[0, 1]\<close> and \<open>width\<close> and \<open>height\<close> at most 1: in the demo mode for every image,
  when the random draws are in \<open>[0, 1)\<close>, and outside it on an image of positive width
  and height. On such an image, the detection of a prediction whose box lies inside the
  frame also has \<open>x + width \<le> 1\<close> and \<open>y + height \<le> 1\<close>.
\<close>

theorem detectMold_unit_box:
  assumes "fst (detectMold s img w) = Inr ds"
  shows "(apiKey s = Some ''demo'' \<and> (\<forall>k. 0 \<le> randoms w k \<and> randoms w k < 1) \<longrightarrow>
            (\<forall>d\<in>set ds. unit_box (location d)))
     \<and> (apiKey s \<noteq> Some ''demo'' \<and> 0 < img_width img \<and> 0 < img_height img \<longrightarrow>
            (\<forall>d\<in>set ds. unit_box (location d))
            \<and> (\<forall>m ps i. model s = Some m \<and> m img = Inr (JArray ps) \<and> i < length ps
                  \<and> in_frame img (ps ! i) \<longrightarrow> clamped_box (location (ds ! i))))"
proof (intro conjI impI)
  assume demo: "apiKey s = Some ''demo'' \<and> (\<forall>k. 0 \<le> randoms w k \<and> randoms w k < 1)"
  have "\<forall>d\<in>set (fst (generateMockDetections img w)). unit_box (location d)"
    by (rule generateMockDetections_all) (simp add: demo mock_detection_unit_box)
  then show "\<forall>d\<in>set ds. unit_box (location d)"
    using detectMold_Inr_cases [OF assms] demo by auto
next
  assume real: "apiKey s \<noteq> Some ''demo'' \<and> 0 < img_width img \<and> 0 < img_height img"
  have "\<forall>d\<in>set (fst (map_predictions img 0 ps w)). unit_box (location d)" for ps
    by (rule map_predictions_all) (simp add: real prediction_to_detection_unit_box)
  then show "\<forall>d\<in>set ds. unit_box (location d)"
    using detectMold_Inr_cases [OF assms] real by auto
next
  assume real: "apiKey s \<noteq> Some ''demo'' \<and> 0 < img_width img \<and> 0 < img_height img"
  show "\<forall>m ps i. model s = Some m \<and> m img = Inr (JArray ps) \<and> i < length ps
          \<and> in_frame img (ps ! i) \<longrightarrow> clamped_box (location (ds ! i))"
  proof (intro allI impI)
    fix m ps i
    assume h: "model s = Some m \<and> m img = Inr (JArray ps) \<and> i < length ps \<and> in_frame img (ps ! i)"
    have "isAvailable s"
      using assms real h by (auto simp: detectMold_def split: if_splits)
    then have "detectMold s img w =
        (Inr (fst (map_predictions img 0 ps w)), snd (map_predictions img 0 ps w))"
      using real h detectMold_model [where s = s and m = m and img = img and ps = ps and w = w]
      by simp
    then have "ds = fst (map_predictions img 0 ps w)"
      using assms by simp
    then have "ds ! i = fst (prediction_to_detection img (ps ! i) i (w\<lparr>cpos := cpos w + i\<rparr>))"
      using h by (simp add: map_predictions_nth)
    then show "clamped_box (location (ds ! i))"
      using real h by (simp add: prediction_to_detection_clamped_box)
  qed
qed

theorem detectMold_unit_box_witness:
  "apiKey (constructor (Some ''demo'')) = Some ''demo''
   \<and> (\<forall>k. 0 \<le> randoms (world_of [1 / 2, 1 / 2, 1 / 2]) k \<and> randoms (world_of [1 / 2, 1 / 2, 1 / 2]) k < 1)
   \<and> length (fst (generateMockDetections \<lparr>img_width = 0, img_height = 0\<rparr>
        (world_of [1 / 2, 1 / 2, 1 / 2]))) = 1
   \<and> unit_box (location (hd (fst (generateMockDetections \<lparr>img_width = 0, img_height = 0\<rparr>
        (world_of [1 / 2, 1 / 2, 1 / 2])))))
   \<and> apiKey (service_with (Inr (JArray [prediction_of 0.9 50 50 20 20]))) \<noteq> Some ''demo''
   \<and> 0 < img_width image_100 \<and> 0 < img_height image_100
   \<and> in_frame image_100 (prediction_of 0.9 50 50 20 20)
   \<and> map location (projr (fst (detectMold
        (service_with (Inr (JArray [prediction_of 0.9 50 50 20 20]))) image_100 (world_of []))))
       = [\<lparr>loc_x = Num (2 / 5), loc_y = Num (2 / 5), loc_width = Num (1 / 5), loc_height = Num (1 / 5)\<rparr>]
   \<and> unit_box \<lparr>loc_x = Num (2 / 5), loc_y = Num (2 / 5), loc_width = Num (1 / 5), loc_height = Num (1 / 5)\<rparr>
   \<and> clamped_box \<lparr>loc_x = Num (2 / 5), loc_y = Num (2 / 5), loc_width = Num (1 / 5), loc_height = Num (1 / 5)\<rparr>"
proof -
  let ?w = "world_of [1 / 2, 1 / 2, 1 / 2]"
  let ?img = "\<lparr>img_width = 0, img_height = 0\<rparr>"
  let ?ds = "fst (generateMockDetections ?img ?w)"
  have k: "apiKey (constructor (Some ''demo'')) = Some ''demo''"
    by (simp add: constructor_def)
  have h: "\<forall>k. 0 \<le> randoms ?w k \<and> randoms ?w k < 1"
    by (rule world_of_unit) simp
  have e: "fst (detectMold (constructor (Some ''demo'')) ?img ?w) = Inr ?ds"
    by (simp add: detectMold_demo k)
  have len: "length ?ds = 1"
    by (simp add: generateMockDetections_length world_of_def)
  have "\<forall>d\<in>set ?ds. unit_box (location d)"
    using detectMold_unit_box [OF e] k h by blast
  moreover have "hd ?ds \<in> set ?ds"
    using len by (cases ?ds) simp_all
  ultimately have u: "unit_box (location (hd ?ds))"
    by blast
  have r: "apiKey (service_with (Inr (JArray [prediction_of 0.9 50 50 20 20]))) \<noteq> Some ''demo''
   \<and> 0 < img_width image_100 \<and> 0 < img_height image_100
   \<and> in_frame image_100 (prediction_of 0.9 50 50 20 20)
   \<and> map location (projr (fst (detectMold
        (service_with (Inr (JArray [prediction_of 0.9 50 50 20 20]))) image_100 (world_of []))))
       = [\<lparr>loc_x = Num (2 / 5), loc_y = Num (2 / 5), loc_width = Num (1 / 5), loc_height = Num (1 / 5)\<rparr>]
   \<and> unit_box \<lparr>loc_x = Num (2 / 5), loc_y = Num (2 / 5), loc_width = Num (1 / 5), loc_height = Num (1 / 5)\<rparr>
   \<and> clamped_box \<lparr>loc_x = Num (2 / 5), loc_y = Num (2 / 5), loc_width = Num (1 / 5), loc_height = Num (1 / 5)\<rparr>"
    using detectMold_unit_box [where s = "service_with (Inr (JArray [prediction_of 0.9 50 50 20 20]))"
        and img = image_100 and w = "world_of []"
        and ds = "projr (fst (detectMold (service_with (Inr (JArray [prediction_of 0.9 50 50 20 20])))
           image_100 (world_of [])))"]
    by (simp add: detectMold_def service_with_def isAvailable_def prediction_of_def image_100_def
        world_of_def prediction_to_detection_def Date_now_def Let_def js_div_def in_frame_def
        replaced_def unit_box_def clamped_box_def)
  from k h len u r show ?thesis by blast
qed

text \<open>
  Claim C3, as stated: a prediction whose confidence is below the threshold, 0.5 by
  default, never appears among the detections that \<open>detectMold\<close> returns. It fails: a
  prediction of confidence 0.49 gives a detection of confidence 0.49.
\<close>

theorem confidence_gating_counterexample:
  "map confidence (projr (fst (detectMold
       (service_with (Inr (JArray [prediction_of 0.49 50 50 20 20]))) image_100 (world_of []))))
     = [49 / 100]
   \<and> (49 / 100 :: real) < CONFIDENCE_THRESHOLD"
  by (simp add: detectMold_def service_with_def isAvailable_def prediction_of_def image_100_def
      world_of_def prediction_to_detection_def Date_now_def Let_def CONFIDENCE_THRESHOLD_def)

text \<open>
  Claim C3, amended: \<open>detectMold\<close> applies no threshold. When the model answers an array
  of predictions, the detections returned carry the confidences of the predictions, one
  for one and in order, whatever they are (0 for a confidence that is missing or falsy).
\<close>

theorem detectMold_keeps_every_confidence:
  assumes "apiKey s \<noteq> Some ''demo''" and "isAvailable s" and "model s = Some m"
    and "m img = Inr (JArray ps)"
  shows "\<exists>ds. fst (detectMold s img w) = Inr ds
     \<and> map confidence ds = map (\<lambda>p. replaced 0 0 (p_confidence p)) ps"
  by (simp add: detectMold_model [OF assms] map_predictions_map prediction_to_detection_confidence)

theorem detectMold_keeps_every_confidence_witness:
  "apiKey (service_with (Inr (JArray [prediction_of 0.49 50 50 20 20]))) \<noteq> Some ''demo''
   \<and> isAvailable (service_with (Inr (JArray [prediction_of 0.49 50 50 20 20])))
   \<and> model (service_with (Inr (JArray [prediction_of 0.49 50 50 20 20])))
       = Some (\<lambda>imageElement. Inr (JArray [prediction_of 0.49 50 50 20 20]))
   \<and> (\<exists>ds. fst (detectMold (service_with (Inr (JArray [prediction_of 0.49 50 50 20 20])))
               image_100 (world_of [])) = Inr ds
          \<and> map confidence ds = [49 / 100])"
  using detectMold_keeps_every_confidence
    [where s = "service_with (Inr (JArray [prediction_of 0.49 50 50 20 20]))"
      and m = "\<lambda>imageElement. Inr (JArray [prediction_of 0.49 50 50 20 20])"
      and img = image_100 and w = "world_of []" and ps = "[prediction_of 0.49 50 50 20 20]"]
  by (simp add: service_with_def isAvailable_def prediction_of_def replaced_def)





text \<open>
  Claim C6, as stated: when the call of the model fails, or the service is not available,
  \<open>detectMold\<close> returns an empty list and no exception reaches the caller. It fails:
  a model that throws \<open>Error('timeout')\<close> makes \<open>detectMold\<close> throw
  \<open>Error('Mold detection failed: timeout')\<close>, and a service that was never initialized
  makes it throw \<open>Error('Roboflow model not initialized')\<close>.
\<close>

theorem detect_failure_counterexample:
  "fst (detectMold (service_with (Inl (Error ''timeout''))) image_100 (world_of []))
     = Inl (Error ''Mold detection failed: timeout'')
   \<and> fst (detectMold (constructor None) image_100 (world_of []))
     = Inl (Error ''Roboflow model not initialized'')"
  by (simp add: detectMold_def service_with_def isAvailable_def constructor_def)

text \<open>
  Claim C6, amended: outside the demo mode, \<open>detectMold\<close> throws
  \<open>Error('Roboflow model not initialized')\<close> when the service is not available, and
  when the call of the model throws \<open>e\<close> it throws \<open>Error('Mold detection failed: ' + m)\<close>,
  where \<open>m\<close> is the message of \<open>e\<close>, or \<open>Unknown error\<close> if \<open>e\<close> is not an
  \<open>Error\<close>; neither changes the environment. Outside the demo mode it returns an
  empty list exactly when the service is available and the model answers a value that is
  not an array, or an empty array.
\<close>

theorem detectMold_propagates_errors:
  assumes "apiKey s \<noteq> Some ''demo''"
  shows "(model s = None \<or> \<not> isAvailable s \<longrightarrow>
            detectMold s img w = (Inl (Error ''Roboflow model not initialized''), w))
     \<and> (\<forall>m e. model s = Some m \<and> isAvailable s \<and> m img = Inl e \<longrightarrow>
            detectMold s img w = (Inl (Error (''Mold detection failed: '' @ message_of e)), w))
     \<and> (fst (detectMold s img w) = Inr [] \<longleftrightarrow>
            isAvailable s
            \<and> (\<exists>m. model s = Some m \<and> (m img = Inr NotArray \<or> m img = Inr (JArray []))))"
proof (intro conjI)
  show "model s = None \<or> \<not> isAvailable s \<longrightarrow>
      detectMold s img w = (Inl (Error ''Roboflow model not initialized''), w)"
    using assms by (auto simp: detectMold_def split: option.splits)
  show "\<forall>m e. model s = Some m \<and> isAvailable s \<and> m img = Inl e \<longrightarrow>
      detectMold s img w = (Inl (Error (''Mold detection failed: '' @ message_of e)), w)"
    using assms by (auto simp: detectMold_def split: option.splits)
  show "fst (detectMold s img w) = Inr [] \<longleftrightarrow>
      isAvailable s \<and> (\<exists>m. model s = Some m \<and> (m img = Inr NotArray \<or> m img = Inr (JArray [])))"
  proof (cases "model s")
    case None
    then show ?thesis using assms by (simp add: detectMold_def)
  next
    case (Some m)
    show ?thesis
    proof (cases "isAvailable s")
      case False
      then show ?thesis using assms Some by (simp add: detectMold_def)
    next
      case True
      show ?thesis
      proof (cases "m img")
        case (Inl e)
        then show ?thesis using assms Some True by (simp add: detectMold_def)
      next
        case (Inr r)
        show ?thesis
        proof (cases r)
          case NotArray
          then show ?thesis using assms Some True Inr by (simp add: detectMold_def)
        next
          case (JArray ps)
          have "fst (detectMold s img w) = Inr (fst (map_predictions img 0 ps w))"
            using detectMold_model [where s = s and m = m and img = img and ps = ps and w = w]
              assms Some True Inr JArray by simp
          moreover have "fst (map_predictions img 0 ps w) = [] \<longleftrightarrow> ps = []"
            using map_predictions_length [of img 0 ps w] by auto
          ultimately show ?thesis using Some True Inr JArray by simp
        qed
      qed
    qed
  qed
qed

theorem detectMold_propagates_errors_witness:
  "apiKey (service_with (Inl NonError)) \<noteq> Some ''demo''
   \<and> model (service_with (Inl NonError)) = Some (\<lambda>imageElement. Inl NonError)
   \<and> isAvailable (service_with (Inl NonError))
   \<and> detectMold (service_with (Inl NonError)) image_100 (world_of [])
       = (Inl (Error ''Mold detection failed: Unknown error''), world_of [])
   \<and> apiKey (constructor (Some ''key'')) \<noteq> Some ''demo''
   \<and> model (constructor (Some ''key'')) = None
   \<and> detectMold (constructor (Some ''key'')) image_100 (world_of [])
       = (Inl (Error ''Roboflow model not initialized''), world_of [])
   \<and> apiKey (service_with (Inr NotArray)) \<noteq> Some ''demo''
   \<and> isAvailable (service_with (Inr NotArray))
   \<and> fst (detectMold (service_with (Inr NotArray)) image_100 (world_of [])) = Inr []"
  using detectMold_propagates_errors [where s = "service_with (Inl NonError)"
      and img = image_100 and w = "world_of []"]
    detectMold_propagates_errors [where s = "constructor (Some ''key'')"
      and img = image_100 and w = "world_of []"]
    detectMold_propagates_errors [where s = "service_with (Inr NotArray)"
      and img = image_100 and w = "world_of []"]
  by (simp add: service_with_def isAvailable_def constructor_def)

text \<open>
  Claim C7. Every detection of the demo mode carries the three markers: an id that
  starts with \<open>demo_mold_\<close>, a description that starts with \<open>Demo:\<close>, and
  \<open>rawPrediction.demo = true\<close>. A detection made from a prediction of the model has
  neither such an id nor such a description, whatever the prediction.
\<close>

theorem demo_marker:
  assumes "fst (detectMold s img w) = Inr ds"
  shows "(apiKey s = Some ''demo'' \<longrightarrow>
            (\<forall>d\<in>set ds. has_demo_id d \<and> has_demo_description d \<and> has_demo_flag d))
     \<and> (apiKey s \<noteq> Some ''demo'' \<longrightarrow>
            (\<forall>d\<in>set ds. \<not> has_demo_id d \<and> \<not> has_demo_description d))"
proof -
  have mock: "\<forall>d\<in>set (fst (generateMockDetections img w)).
      has_demo_id d \<and> has_demo_description d \<and> has_demo_flag d"
    by (rule generateMockDetections_all) (rule mock_detection_marker)
  have real: "\<forall>d\<in>set (fst (map_predictions img 0 ps w)).
      \<not> has_demo_id d \<and> \<not> has_demo_description d" for ps
    by (rule map_predictions_all) (rule prediction_to_detection_no_marker)
  from detectMold_Inr_cases [OF assms] mock real show ?thesis
    by auto
qed

theorem demo_marker_witness:
  "fst (detectMold (constructor (Some ''demo'')) image_100 (world_of [1 / 2, 1 / 2, 1 / 2]))
     = Inr (projr (fst (detectMold (constructor (Some ''demo'')) image_100
         (world_of [1 / 2, 1 / 2, 1 / 2]))))
   \<and> apiKey (constructor (Some ''demo'')) = Some ''demo''
   \<and> map det_id (projr (fst (detectMold (constructor (Some ''demo'')) image_100
         (world_of [1 / 2, 1 / 2, 1 / 2])))) = [''demo_mold_0_0'']
   \<and> map description (projr (fst (detectMold (constructor (Some ''demo'')) image_100
         (world_of [1 / 2, 1 / 2, 1 / 2]))))
       = [JString ''Demo: Mold growth detected with 75% confidence'']
   \<and> has_demo_id (hd (projr (fst (detectMold (constructor (Some ''demo'')) image_100
         (world_of [1 / 2, 1 / 2, 1 / 2])))))
   \<and> fst (detectMold (service_with (Inr (JArray [prediction_of 0.9 50 50 20 20]))) image_100
         (world_of []))
     = Inr (projr (fst (detectMold (service_with (Inr (JArray [prediction_of 0.9 50 50 20 20])))
         image_100 (world_of []))))
   \<and> apiKey (service_with (Inr (JArray [prediction_of 0.9 50 50 20 20]))) \<noteq> Some ''demo''
   \<and> map det_id (projr (fst (detectMold
         (service_with (Inr (JArray [prediction_of 0.9 50 50 20 20]))) image_100 (world_of []))))
       = [''mold_0_0'']
   \<and> map description (projr (fst (detectMold
         (service_with (Inr (JArray [prediction_of 0.9 50 50 20 20]))) image_100 (world_of []))))
       = [JString ''Mold growth detected with 90% confidence'']
   \<and> \<not> has_demo_id (hd (projr (fst (detectMold
         (service_with (Inr (JArray [prediction_of 0.9 50 50 20 20]))) image_100 (world_of [])))))"
  using demo_marker [where s = "constructor (Some ''demo'')" and img = image_100
      and w = "world_of [1 / 2, 1 / 2, 1 / 2]"
      and ds = "projr (fst (detectMold (constructor (Some ''demo'')) image_100
         (world_of [1 / 2, 1 / 2, 1 / 2])))"]
    demo_marker [where s = "service_with (Inr (JArray [prediction_of 0.9 50 50 20 20]))"
      and img = image_100 and w = "world_of []"
      and ds = "projr (fst (detectMold
         (service_with (Inr (JArray [prediction_of 0.9 50 50 20 20]))) image_100 (world_of [])))"]
  by (simp add: detectMold_def constructor_def world_of_def generateMockDetections_def
      Math_random_def Math_floor_def mock_loop.simps mock_detection_def Date_now_def Let_def
      has_demo_id_def show_int_def show_nat.simps digit_def Math_round_def
      service_with_def isAvailable_def prediction_of_def image_100_def
      prediction_to_detection_def generateDescription_def toLowerCase_def toLowerCase_char_def
      get_property_def)

text \<open>
  Claim C8: every class name other than \<open>mold\<close>, \<open>mouldy\<close> and \<open>fungal\<close> (in any
  case of the letters) gets the generic description. The code misses it for a class
  name that is a property of \<open>Object.prototype\<close>: for \<open>constructor\<close> the lookup finds
  the inherited property, which is truthy, and \<open>generateDescription\<close> returns it rather
  than the generic description.
\<close>

theorem generateDescription_inherited_property:
  "generateDescription ''constructor'' (9 / 10) = JBuiltin ''constructor''
   \<and> generateDescription ''constructor'' (9 / 10)
       \<noteq> JString ''Mold-like substance detected with 90% confidence''
   \<and> toLowerCase ''constructor'' \<notin> {''mold'', ''mouldy'', ''fungal''}"
  by (simp add: generateDescription_def toLowerCase_def toLowerCase_char_def get_property_def
      Object_prototype_def Let_def)

text \<open>
  Claim C9. With the key \<open>demo\<close>, given to the constructor or to \<open>initialize\<close>,
  \<open>detectMold\<close> returns the detections of the demo mode and does not throw, also when
  the service was only constructed. \<open>initialize('demo')\<close> returns true, makes the
  service available and does not touch the model, which is null after the constructor.
\<close>

theorem demo_mode:
  "fst (initialize lib ''demo'' s) = Inr True
   \<and> isAvailable (snd (initialize lib ''demo'' s))
   \<and> model (snd (initialize lib ''demo'' s)) = model s
   \<and> model (constructor key) = None
   \<and> model (snd (initialize lib ''demo'' (constructor key))) = None
   \<and> \<not> isInitialized (constructor key)
   \<and> (s' = constructor (Some ''demo'') \<or> s' = snd (initialize lib ''demo'' s) \<longrightarrow>
        detectMold s' img w
          = (Inr (fst (generateMockDetections img w)), snd (generateMockDetections img w)))"
proof -
  have "apiKey (constructor (Some ''demo'')) = Some ''demo''"
    by (simp add: constructor_def)
  moreover have "apiKey (snd (initialize lib ''demo'' s)) = Some ''demo''"
    by (simp add: initialize_def)
  ultimately have "s' = constructor (Some ''demo'') \<or> s' = snd (initialize lib ''demo'' s) \<longrightarrow>
        detectMold s' img w
          = (Inr (fst (generateMockDetections img w)), snd (generateMockDetections img w))"
    using detectMold_demo by blast
  then show ?thesis
    by (simp add: initialize_def isAvailable_def constructor_def)
qed

theorem demo_mode_witness:
  "model (constructor (Some ''demo'')) = None
   \<and> \<not> isInitialized (constructor (Some ''demo''))
   \<and> detectMold (constructor (Some ''demo'')) image_100 (world_of [1 / 2, 1 / 2, 1 / 2])
       = (Inr (fst (generateMockDetections image_100 (world_of [1 / 2, 1 / 2, 1 / 2]))),
          snd (generateMockDetections image_100 (world_of [1 / 2, 1 / 2, 1 / 2])))
   \<and> length (fst (generateMockDetections image_100 (world_of [1 / 2, 1 / 2, 1 / 2]))) = 1"
  using demo_mode [where s' = "constructor (Some ''demo'')" and key = "Some ''demo''"
      and img = image_100 and w = "world_of [1 / 2, 1 / 2, 1 / 2]"]
  by (simp add: generateMockDetections_length world_of_def)




end
